theory Spec2Isabelle
  imports
    Main
    "HOL-Library.Sublist"
    "HOL-Library.Char_ord"
    "HOL-Library.List_Lexorder"
begin

section \<open>The record store of the server package (db/index.ts)\<close>

text \<open>
  The class \<open>Database\<close> wraps a query builder over an SQL database. The model keeps
  the contents of the tables as lists of rows in storage order, threads them through
  every method, and returns what a method throws as a value (\<open>Inl\<close>). Every
  asynchronous method is modelled by the state it leaves behind once its promise has
  settled. Calls to the logger are left out.
\<close>

subsection \<open>Errors\<close>

datatype error =
    Error string
  | SyntaxError
  | TypeError
  | StorageFailure string

text \<open>
  \<open>Error m\<close> is \<open>throw new Error(m)\<close>; \<open>SyntaxError\<close> is what \<open>JSON.parse\<close> and
  \<open>CID.parse\<close> throw on text they cannot read; \<open>TypeError\<close> is what
  \<open>JSON.stringify\<close> throws on a value it cannot serialise (a BigInt, a cyclic
  object); \<open>StorageFailure\<close> is a query the engine rejects.
\<close>

subsection \<open>Record URIs\<close>

text \<open>
  The class \<open>AdxUri\<close> belongs to an external package. The store reads three of its
  properties and calls \<open>toString()\<close>; the model holds these four observations and
  assumes no relation between them.
\<close>

record AdxUri =
  uri_host :: string
  uri_collection :: string
  uri_recordKey :: string
  uri_toString :: string

subsection \<open>Validation verdicts\<close>

text \<open>
  Modelled from the spec: \<open>ValidationResult\<close> and \<open>ValidationResultCode\<close> come from
  the external lexicon package, which is not part of the source. The spec gives a
  verdict a validity, a code and a message, and names the code \<open>Incompatible\<close>, a
  failure. The other codes, the messages kept as a list, the validity read off the
  code, and a fresh verdict with the code \<open>Full\<close> that \<open>_t\<close> moves to a code with a
  message, stand for the package.
\<close>

datatype ValidationResultCode = Full | Partial | Incompatible | Invalid

record ValidationResult =
  code :: ValidationResultCode
  messages :: "string list"

definition valid :: "ValidationResult \<Rightarrow> bool" where
  "valid r = (code r \<noteq> Incompatible \<and> code r \<noteq> Invalid)"

definition new_ValidationResult :: ValidationResult where
  "new_ValidationResult = \<lparr>code = Full, messages = []\<rparr>"

definition ValidationResult_t ::
  "ValidationResult \<Rightarrow> ValidationResultCode \<Rightarrow> string \<Rightarrow> ValidationResult" where
  "ValidationResult_t r to message = r\<lparr>code := to, messages := messages r @ [message]\<rparr>"

subsection \<open>Plugins\<close>

text \<open>
  Modelled from the spec: the six record plugins and the notifications plugin are
  built by modules that are not part of the source, so they are parameters of the
  store. By the plugin contract a record plugin owns its typed table, and the
  notifications plugin owns the notification table: \<open>insert\<close> and \<open>delete\<close> act on
  the typed tables (of type \<open>'t\<close>) only, \<open>process\<close> and \<open>deleteForRecord\<close> on the
  notification table (of type \<open>'n\<close>) only, and \<open>notifsForRecord\<close> is pure. Each of
  the effectful operations may fail and says which state it leaves.
\<close>

record ('o, 'm, 't) DbRecordPlugin =
  plugin_collection :: string
  validateSchema :: "'o \<Rightarrow> error + ValidationResult"
  plugin_insert :: "AdxUri \<Rightarrow> 'o \<Rightarrow> 't \<Rightarrow> (error + unit) \<times> 't"
  plugin_delete :: "AdxUri \<Rightarrow> 't \<Rightarrow> (error + unit) \<times> 't"
  notifsForRecord :: "AdxUri \<Rightarrow> 'o \<Rightarrow> 'm list"

record ('m, 'n) NotificationsPlugin =
  process :: "'m list \<Rightarrow> 'n \<Rightarrow> (error + unit) \<times> 'n"
  deleteForRecord :: "AdxUri \<Rightarrow> 'n \<Rightarrow> (error + unit) \<times> 'n"

record ('o, 'm, 't) record_plugins =
  post :: "('o, 'm, 't) DbRecordPlugin"
  like :: "('o, 'm, 't) DbRecordPlugin"
  repost :: "('o, 'm, 't) DbRecordPlugin"
  follow :: "('o, 'm, 't) DbRecordPlugin"
  profile :: "('o, 'm, 't) DbRecordPlugin"
  badge :: "('o, 'm, 't) DbRecordPlugin"

text \<open>\<open>Object.values\<close> lists the plugins in the order the constructor stores them.\<close>

definition Object_values ::
  "('o, 'm, 't) record_plugins \<Rightarrow> ('o, 'm, 't) DbRecordPlugin list" where
  "Object_values r = [post r, like r, repost r, follow r, badge r, profile r]"

subsection \<open>Tables\<close>

record record_row =
  row_uri :: string
  row_did :: string
  row_collection :: string
  row_recordKey :: string
  row_raw :: string
  row_indexedAt :: string
  row_receivedAt :: string

record repo_root_row =
  repo_root_did :: string
  repo_root_root :: string

record User =
  user_email :: string
  user_username :: string
  user_did :: string
  user_password :: string
  user_createdAt :: string
  user_lastSeenNotifs :: string

record ('t, 'n) tables =
  record_tbl :: "record_row list"
  repo_root_tbl :: "repo_root_row list"
  user_tbl :: "User list"
  typed_tbls :: 't
  user_notification_tbl :: 'n

record ('o, 'm, 't, 'n) Database =
  db :: "('t, 'n) tables"
  records :: "('o, 'm, 't) record_plugins"
  notifications :: "('m, 'n) NotificationsPlugin"

text \<open>
  Modelled from the spec: the table declarations (\<open>database-schema\<close>) are not part of
  the source. The generic record log has the serialised URI as its primary key, so
  the engine rejects the insertion of a row whose URI the log already holds and
  appends every other row.
\<close>

definition insertInto_record ::
  "record_row \<Rightarrow> ('t, 'n) tables \<Rightarrow> (error + unit) \<times> ('t, 'n) tables" where
  "insertInto_record row d =
     (if row_uri row \<in> set (map row_uri (record_tbl d))
      then (Inl (StorageFailure ''record.uri is not unique''), d)
      else (Inr (), d\<lparr>record_tbl := record_tbl d @ [row]\<rparr>))"

subsection \<open>Plugin lookup and validation\<close>

definition findTableForCollection ::
  "('o, 'm, 't, 'n) Database \<Rightarrow> string \<Rightarrow> error + ('o, 'm, 't) DbRecordPlugin" where
  "findTableForCollection this collection =
     (case find (\<lambda>plugin. plugin_collection plugin = collection)
             (Object_values (records this)) of
        None \<Rightarrow> Inl (Error ''Could not find table for collection'')
      | Some found \<Rightarrow> Inr found)"

definition validateRecord ::
  "('o, 'm, 't, 'n) Database \<Rightarrow> string \<Rightarrow> 'o \<Rightarrow> error + ValidationResult" where
  "validateRecord this collection obj =
     (case findTableForCollection this collection of
        Inl e \<Rightarrow>
          Inr (ValidationResult_t new_ValidationResult Incompatible ''Schema not found'')
      | Inr table \<Rightarrow> validateSchema table obj)"

definition canIndexRecord ::
  "('o, 'm, 't, 'n) Database \<Rightarrow> string \<Rightarrow> 'o \<Rightarrow> error + bool" where
  "canIndexRecord this collection obj =
     (case findTableForCollection this collection of
        Inl e \<Rightarrow> Inl e
      | Inr table \<Rightarrow>
          (case validateSchema table obj of
             Inl e \<Rightarrow> Inl e
           | Inr verdict \<Rightarrow> Inr (valid verdict)))"

subsection \<open>Writing and deleting records\<close>

text \<open>
  \<open>indexRecord\<close> takes the serialiser of the platform (\<open>JSON.stringify\<close>, which
  returns the text or throws) and the two readings of the clock as arguments. The row
  is built, and the payload serialised, before the URI is checked. The three writes
  are awaited one after the other, and nothing is undone when a later one fails.
\<close>

definition indexRecord ::
  "('o \<Rightarrow> error + string) \<Rightarrow> string \<Rightarrow> string \<Rightarrow> ('o, 'm, 't, 'n) Database \<Rightarrow> AdxUri \<Rightarrow> 'o
     \<Rightarrow> (error + unit) \<times> ('o, 'm, 't, 'n) Database" where
  "indexRecord JSON_stringify now1 now2 this uri obj =
     (case JSON_stringify obj of
        Inl e \<Rightarrow> (Inl e, this)
      | Inr raw \<Rightarrow>
     (let record = \<lparr>row_uri = uri_toString uri, row_did = uri_host uri,
                     row_collection = uri_collection uri, row_recordKey = uri_recordKey uri,
                     row_raw = raw, row_indexedAt = now1,
                     row_receivedAt = now2\<rparr>
      in if \<not> prefix ''did:'' (row_did record)
           then (Inl (Error ''Expected indexed URI to contain DID''), this)
         else if length (row_collection record) < 1
           then (Inl (Error ''Expected indexed URI to contain a collection''), this)
         else if length (row_recordKey record) < 1
           then (Inl (Error ''Expected indexed URI to contain a record key''), this)
         else
           (case insertInto_record record (db this) of
              (Inl e, d1) \<Rightarrow> (Inl e, this\<lparr>db := d1\<rparr>)
            | (Inr _, d1) \<Rightarrow>
                (case findTableForCollection this (uri_collection uri) of
                   Inl e \<Rightarrow> (Inl e, this\<lparr>db := d1\<rparr>)
                 | Inr table \<Rightarrow>
                     (case plugin_insert table uri obj (typed_tbls d1) of
                        (Inl e, t2) \<Rightarrow> (Inl e, this\<lparr>db := d1\<lparr>typed_tbls := t2\<rparr>\<rparr>)
                      | (Inr _, t2) \<Rightarrow>
                          (let notifs = notifsForRecord table uri obj
                           in case process (notifications this) notifs
                                     (user_notification_tbl d1) of
                                (r, n3) \<Rightarrow>
                                  (r, this\<lparr>db := d1\<lparr>typed_tbls := t2,
                                                     user_notification_tbl := n3\<rparr>\<rparr>)))))))"

text \<open>The three errors with which \<open>indexRecord\<close> rejects a URI.\<close>

definition ContractViolation :: "error \<Rightarrow> bool" where
  "ContractViolation e =
     (e = Error ''Expected indexed URI to contain DID''
      \<or> e = Error ''Expected indexed URI to contain a collection''
      \<or> e = Error ''Expected indexed URI to contain a record key'')"

text \<open>A collection is registered when one of the six plugins carries its name.\<close>

definition registered :: "('o, 'm, 't, 'n) Database \<Rightarrow> string \<Rightarrow> bool" where
  "registered this collection =
     (collection \<in> set (map plugin_collection (Object_values (records this))))"

text \<open>
  \<open>Promise.all\<close> settles once every promise has settled or one has rejected; all
  three removals run in either case. The model reports the first rejection in the
  order of the array.
\<close>

fun Promise_all :: "(error + unit) list \<Rightarrow> error + unit" where
  "Promise_all [] = Inr ()"
| "Promise_all (Inl e # ps) = Inl e"
| "Promise_all (Inr _ # ps) = Promise_all ps"

definition deleteRecord ::
  "('o, 'm, 't, 'n) Database \<Rightarrow> AdxUri \<Rightarrow> (error + unit) \<times> ('o, 'm, 't, 'n) Database" where
  "deleteRecord this uri =
     (case findTableForCollection this (uri_collection uri) of
        Inl e \<Rightarrow> (Inl e, this)
      | Inr table \<Rightarrow>
          (let d = db this;
               deleteQuery = (Inr (), filter (\<lambda>r. row_uri r \<noteq> uri_toString uri) (record_tbl d));
               deleted = plugin_delete table uri (typed_tbls d);
               cleared = deleteForRecord (notifications this) uri (user_notification_tbl d)
           in (Promise_all [fst deleted, fst deleteQuery, fst cleared],
               this\<lparr>db := d\<lparr>record_tbl := snd deleteQuery, typed_tbls := snd deleted,
                               user_notification_tbl := snd cleared\<rparr>\<rparr>)))"

subsection \<open>Reading records\<close>

text \<open>
  \<open>JSON.parse\<close> is an argument; it returns \<open>None\<close> where the platform throws. The
  result \<open>None\<close> of \<open>getRecord\<close> is \<open>null\<close>.
\<close>

definition getRecord ::
  "(string \<Rightarrow> 'o option) \<Rightarrow> ('o, 'm, 't, 'n) Database \<Rightarrow> AdxUri \<Rightarrow> error + 'o option" where
  "getRecord JSON_parse this uri =
     (case find (\<lambda>r. row_uri r = uri_toString uri) (record_tbl (db this)) of
        None \<Rightarrow> Inr None
      | Some record \<Rightarrow>
          (case JSON_parse (row_raw record) of
             None \<Rightarrow> Inl SyntaxError
           | Some v \<Rightarrow> Inr (Some v)))"

definition listCollectionsForDid :: "('o, 'm, 't, 'n) Database \<Rightarrow> string \<Rightarrow> string list" where
  "listCollectionsForDid this did =
     (let collections = filter (\<lambda>row. row_did row = did) (record_tbl (db this))
      in map (\<lambda>row. row_collection row) collections)"

text \<open>
  The query of \<open>listRecordsForCollection\<close>: every \<open>where\<close> of the builder restricts
  the rows, whatever the order in which the builder received it; the rows are then
  ordered by \<open>recordKey\<close> and cut at \<open>limit\<close>. Keys compare byte by byte. The limit
  is a natural number. Rows with equal keys keep their storage order when ascending,
  and the descending order is the ascending one reversed.
\<close>

definition listRecordsForCollection_res ::
  "('o, 'm, 't, 'n) Database \<Rightarrow> string \<Rightarrow> string \<Rightarrow> nat \<Rightarrow> bool \<Rightarrow> string option
     \<Rightarrow> string option \<Rightarrow> record_row list" where
  "listRecordsForCollection_res this did collection limit reverse before_key after_key =
     (let selected =
            filter (\<lambda>row. row_did row = did \<and> row_collection row = collection
                      \<and> (case before_key of None \<Rightarrow> True | Some b \<Rightarrow> row_recordKey row < b)
                      \<and> (case after_key of None \<Rightarrow> True | Some a \<Rightarrow> row_recordKey row > a))
              (record_tbl (db this));
          ordered = (if reverse then rev (sort_key row_recordKey selected)
                     else sort_key row_recordKey selected)
      in take limit ordered)"

record 'o uri_value =
  out_uri :: string
  out_value :: 'o

fun res_map :: "(string \<Rightarrow> 'o option) \<Rightarrow> record_row list \<Rightarrow> error + 'o uri_value list" where
  "res_map JSON_parse [] = Inr []"
| "res_map JSON_parse (row # rows) =
     (case JSON_parse (row_raw row) of
        None \<Rightarrow> Inl SyntaxError
      | Some v \<Rightarrow>
          (case res_map JSON_parse rows of
             Inl e \<Rightarrow> Inl e
           | Inr out \<Rightarrow> Inr (\<lparr>out_uri = row_uri row, out_value = v\<rparr> # out)))"

definition listRecordsForCollection ::
  "(string \<Rightarrow> 'o option) \<Rightarrow> ('o, 'm, 't, 'n) Database \<Rightarrow> string \<Rightarrow> string \<Rightarrow> nat \<Rightarrow> bool
     \<Rightarrow> string option \<Rightarrow> string option \<Rightarrow> error + 'o uri_value list" where
  "listRecordsForCollection JSON_parse this did collection limit reverse before_key after_key =
     res_map JSON_parse
       (listRecordsForCollection_res this did collection limit reverse before_key after_key)"

subsection \<open>Repository roots\<close>

text \<open>
  \<open>CID.parse\<close> and \<open>CID.toString\<close> of the external content-address package are
  arguments; \<open>CID_parse\<close> returns \<open>None\<close> where the package throws.
\<close>

definition getRepoRoot ::
  "(string \<Rightarrow> 'c option) \<Rightarrow> ('o, 'm, 't, 'n) Database \<Rightarrow> string \<Rightarrow> error + 'c option" where
  "getRepoRoot CID_parse this did =
     (case find (\<lambda>r. repo_root_did r = did) (repo_root_tbl (db this)) of
        None \<Rightarrow> Inr None
      | Some found \<Rightarrow>
          (case CID_parse (repo_root_root found) of
             None \<Rightarrow> Inl SyntaxError
           | Some c \<Rightarrow> Inr (Some c)))"

definition updateRepoRoot ::
  "('c \<Rightarrow> string) \<Rightarrow> ('o, 'm, 't, 'n) Database \<Rightarrow> string \<Rightarrow> 'c
     \<Rightarrow> (error + unit) \<times> ('o, 'm, 't, 'n) Database" where
  "updateRepoRoot CID_toString this did root =
     (let d = db this
      in (Inr (),
          this\<lparr>db := d\<lparr>repo_root_tbl :=
                          map (\<lambda>r. if repo_root_did r = did
                                    then r\<lparr>repo_root_root := CID_toString root\<rparr> else r)
                            (repo_root_tbl d)\<rparr>\<rparr>))"

subsection \<open>Users\<close>

text \<open>
  \<open>UPPER\<close> of the engine and \<open>toUpperCase\<close> of the platform are arguments of
  \<open>getUser\<close>: the two agree on ASCII text and need not agree beyond it. The password
  check of the \<open>scrypt\<close> module, which is not part of the source, is an argument of
  \<open>verifyUserPassword\<close>.
\<close>

definition getUser ::
  "(string \<Rightarrow> string) \<Rightarrow> (string \<Rightarrow> string) \<Rightarrow> ('o, 'm, 't, 'n) Database \<Rightarrow> string
     \<Rightarrow> User option" where
  "getUser UPPER toUpperCase this usernameOrDid =
     (if prefix ''did:'' usernameOrDid
      then find (\<lambda>u. user_did u = usernameOrDid) (user_tbl (db this))
      else find (\<lambda>u. UPPER (user_username u) = toUpperCase usernameOrDid)
             (user_tbl (db this)))"

definition verifyUserPassword ::
  "(string \<Rightarrow> string \<Rightarrow> bool) \<Rightarrow> ('o, 'm, 't, 'n) Database \<Rightarrow> string \<Rightarrow> string
     \<Rightarrow> string option" where
  "verifyUserPassword scrypt_verify this username password =
     (case find (\<lambda>u. user_username u = username) (user_tbl (db this)) of
        None \<Rightarrow> None
      | Some found \<Rightarrow>
          (let validPass = scrypt_verify password (user_password found)
           in if \<not> validPass then None else Some (user_did found)))"

subsection \<open>Feed items\<close>

text \<open>
  A column that may be \<open>null\<close> and a property that may be \<open>undefined\<close> are options;
  \<open>x ?? undefined\<close> is then \<open>x\<close> itself. Counts are integers.
\<close>

datatype FeedRowType = Post | Repost

record FeedRow =
  row_type :: FeedRowType
  postUri :: string
  cursor :: string
  recordRaw :: string
  indexedAt :: string
  authorDid :: string
  authorName :: string
  authorDisplayName :: "string option"
  originatorDid :: string
  originatorName :: string
  originatorDisplayName :: "string option"
  likeCount :: int
  repostCount :: int
  replyCount :: int
  requesterRepost :: "string option"
  requesterLike :: "string option"

record actor =
  actor_did :: string
  actor_name :: string
  actor_displayName :: "string option"

record myState =
  myState_repost :: "string option"
  myState_like :: "string option"

record 'o FeedItem =
  item_cursor :: string
  item_uri :: string
  item_author :: actor
  item_repostedBy :: "actor option"
  item_record :: 'o
  item_replyCount :: int
  item_repostCount :: int
  item_likeCount :: int
  item_indexedAt :: string
  item_myState :: myState

definition rowToFeedItem :: "(string \<Rightarrow> 'o option) \<Rightarrow> FeedRow \<Rightarrow> error + 'o FeedItem" where
  "rowToFeedItem JSON_parse row =
     (case JSON_parse (recordRaw row) of
        None \<Rightarrow> Inl SyntaxError
      | Some parsed \<Rightarrow>
          Inr \<lparr>item_cursor = cursor row,
               item_uri = postUri row,
               item_author =
                 \<lparr>actor_did = authorDid row, actor_name = authorName row,
                  actor_displayName = authorDisplayName row\<rparr>,
               item_repostedBy =
                 (if row_type row = Repost
                  then Some \<lparr>actor_did = originatorDid row, actor_name = originatorName row,
                             actor_displayName = originatorDisplayName row\<rparr>
                  else None),
               item_record = parsed,
               item_replyCount = replyCount row,
               item_repostCount = repostCount row,
               item_likeCount = likeCount row,
               item_indexedAt = indexedAt row,
               item_myState =
                 \<lparr>myState_repost = requesterRepost row,
                  myState_like = requesterLike row\<rparr>\<rparr>)"

text \<open>
  The vocabulary of the pagination property: a key is within the bounds when it is
  strictly below \<open>before\<close> and strictly above \<open>after\<close>, where given; a result
  projects a list of rows when it holds, in the same order, the URI and the decoded
  payload of each row; the rows of a collection are those of the log with its identity
  and its name.
\<close>

definition in_bounds :: "string option \<Rightarrow> string option \<Rightarrow> string \<Rightarrow> bool" where
  "in_bounds before_key after_key k =
     ((case before_key of None \<Rightarrow> True | Some b \<Rightarrow> k < b)
      \<and> (case after_key of None \<Rightarrow> True | Some a \<Rightarrow> a < k))"

definition projects ::
  "(string \<Rightarrow> 'o option) \<Rightarrow> record_row list \<Rightarrow> 'o uri_value list \<Rightarrow> bool" where
  "projects JSON_parse rows res =
     list_all2 (\<lambda>row out. out_uri out = row_uri row
                  \<and> JSON_parse (row_raw row) = Some (out_value out)) rows res"

definition rows_of :: "('o, 'm, 't, 'n) Database \<Rightarrow> string \<Rightarrow> string \<Rightarrow> record_row list" where
  "rows_of this did collection =
     filter (\<lambda>row. row_did row = did \<and> row_collection row = collection)
       (record_tbl (db this))"

section \<open>A small store\<close>

text \<open>
  A store to evaluate the methods on: payloads are strings, serialised between
  brackets, except the payload \<open>10n\<close>, which stands for a value that
  \<open>JSON.stringify\<close> cannot serialise; a typed table and the notification table hold
  the URIs written to them; content addresses are their own text.
\<close>

definition demo_stringify :: "string \<Rightarrow> error + string" where
  "demo_stringify s = (if s = ''10n'' then Inl TypeError else Inr (''['' @ s @ '']''))"

definition demo_parse :: "string \<Rightarrow> string option" where
  "demo_parse s =
     (case s of
        [] \<Rightarrow> None
      | c # r \<Rightarrow> if c = CHR ''['' \<and> r \<noteq> [] \<and> last r = CHR '']'' then Some (butlast r) else None)"

definition demo_plugin :: "string \<Rightarrow> (string, string, string list) DbRecordPlugin" where
  "demo_plugin c =
     \<lparr>plugin_collection = c,
      validateSchema =
        (\<lambda>obj. Inr (if obj = [] then ValidationResult_t new_ValidationResult Invalid ''empty''
                     else new_ValidationResult)),
      plugin_insert = (\<lambda>uri obj t. (Inr (), t @ [uri_toString uri])),
      plugin_delete = (\<lambda>uri t. (Inr (), filter (\<lambda>u. u \<noteq> uri_toString uri) t)),
      notifsForRecord = (\<lambda>uri obj. [uri_toString uri])\<rparr>"

definition demo_notifications :: "(string, string list) NotificationsPlugin" where
  "demo_notifications =
     \<lparr>process = (\<lambda>ms n. (Inr (), n @ ms)),
      deleteForRecord = (\<lambda>uri n. (Inr (), filter (\<lambda>u. u \<noteq> uri_toString uri) n))\<rparr>"

definition demo_plugins :: "(string, string, string list) record_plugins" where
  "demo_plugins =
     \<lparr>post = demo_plugin ''app.bsky.post'', like = demo_plugin ''app.bsky.like'',
      repost = demo_plugin ''app.bsky.repost'', follow = demo_plugin ''app.bsky.follow'',
      profile = demo_plugin ''app.bsky.profile'', badge = demo_plugin ''app.bsky.badge''\<rparr>"

definition demo_row :: "string \<Rightarrow> record_row" where
  "demo_row k =
     \<lparr>row_uri = ''at://did:a/app.bsky.post/'' @ k, row_did = ''did:a'',
      row_collection = ''app.bsky.post'', row_recordKey = k, row_raw = ''['' @ k @ '']'',
      row_indexedAt = ''t'', row_receivedAt = ''t''\<rparr>"

definition demo_uri :: "string \<Rightarrow> AdxUri" where
  "demo_uri k =
     \<lparr>uri_host = ''did:a'', uri_collection = ''app.bsky.post'', uri_recordKey = k,
      uri_toString = ''at://did:a/app.bsky.post/'' @ k\<rparr>"

definition demo_store ::
  "record_row list \<Rightarrow> repo_root_row list \<Rightarrow> User list
     \<Rightarrow> (string, string, string list, string list) Database" where
  "demo_store rows roots users =
     \<lparr>db = \<lparr>record_tbl = rows, repo_root_tbl = roots, user_tbl = users, typed_tbls = [],
             user_notification_tbl = []\<rparr>,
      records = demo_plugins, notifications = demo_notifications\<rparr>"

definition demo_CID_parse :: "string \<Rightarrow> string option" where
  "demo_CID_parse s = (if s = [] then None else Some s)"

definition demo_CID_toString :: "string \<Rightarrow> string" where
  "demo_CID_toString c = c"

definition demo_user :: "string \<Rightarrow> string \<Rightarrow> User" where
  "demo_user name did =
     \<lparr>user_email = name @ ''@mail.test'', user_username = name, user_did = did,
      user_password = ''scrypt:secret'', user_createdAt = ''t'', user_lastSeenNotifs = ''t''\<rparr>"

text \<open>
  Two case foldings to evaluate \<open>getUser\<close> on: \<open>demo_UPPER\<close> replaces the letters a
  to z, as the embedded engine does; \<open>demo_toUpperCase\<close> replaces in addition the
  letter e with acute accent (the bytes C3 A9 of its UTF-8 text) by its capital (C3
  89), as the platform does.
\<close>

definition ascii_upper :: "char \<Rightarrow> char" where
  "ascii_upper c =
     (case map_of (zip ''abcdefghijklmnopqrstuvwxyz'' ''ABCDEFGHIJKLMNOPQRSTUVWXYZ'') c of
        None \<Rightarrow> c
      | Some u \<Rightarrow> u)"

definition demo_UPPER :: "string \<Rightarrow> string" where
  "demo_UPPER s = map ascii_upper s"

fun demo_toUpperCase :: "string \<Rightarrow> string" where
  "demo_toUpperCase [] = []"
| "demo_toUpperCase [c] = [ascii_upper c]"
| "demo_toUpperCase (c # d # cs) =
     (if c = CHR 0xC3 \<and> d = CHR 0xA9 then CHR 0xC3 # CHR 0x89 # demo_toUpperCase cs
      else ascii_upper c # demo_toUpperCase (d # cs))"

definition demo_scrypt_verify :: "string \<Rightarrow> string \<Rightarrow> bool" where
  "demo_scrypt_verify password hash = (hash = ''scrypt:'' @ password)"

definition demo_log :: "record_row list" where
  "demo_log =
     [demo_row ''b'', (demo_row ''z'')\<lparr>row_did := ''did:b''\<rparr>, demo_row ''c'', demo_row ''a'']"

definition demo_out :: "string \<Rightarrow> string uri_value" where
  "demo_out k = \<lparr>out_uri = ''at://did:a/app.bsky.post/'' @ k, out_value = k\<rparr>"

section \<open>Properties\<close>

subsection \<open>Plugin lookup\<close>

lemma findTableForCollection_unregistered:
  "\<not> registered this collection
   \<Longrightarrow> findTableForCollection this collection
         = Inl (Error ''Could not find table for collection'')"
  by (auto simp: registered_def findTableForCollection_def find_None_iff
           split: option.splits)

lemma findTableForCollection_registered:
  assumes "registered this collection"
  shows "\<exists>table. findTableForCollection this collection = Inr table
           \<and> table \<in> set (Object_values (records this))
           \<and> plugin_collection table = collection"
proof -
  from assms obtain p where p: "p \<in> set (Object_values (records this))"
      "plugin_collection p = collection"
    by (auto simp: registered_def)
  then have "find (\<lambda>plugin. plugin_collection plugin = collection)
               (Object_values (records this)) \<noteq> None"
    by (auto simp: find_None_iff)
  then obtain table where t: "find (\<lambda>plugin. plugin_collection plugin = collection)
               (Object_values (records this)) = Some table"
    by blast
  then have "table \<in> set (Object_values (records this))" "plugin_collection table = collection"
    by (auto simp: find_Some_iff)
  with t show ?thesis
    by (simp add: findTableForCollection_def)
qed

lemma findTableForCollection_Inr:
  "findTableForCollection this collection = Inr table \<Longrightarrow> registered this collection"
  using findTableForCollection_unregistered [of this collection] by auto

lemmas demo_defs =
  demo_store_def demo_plugins_def demo_plugin_def demo_notifications_def demo_uri_def
  demo_row_def demo_stringify_def demo_parse_def Object_values_def registered_def

subsection \<open>Validation\<close>

text \<open>
  C5: for a collection with no registered plugin, \<open>validateRecord\<close> does not raise: it
  returns a verdict whose code is \<open>Incompatible\<close> and which carries the message
  \<open>Schema not found\<close>. For a registered collection it returns exactly what
  \<open>validateSchema\<close> of the collection's plugin returns.
\<close>

theorem validateRecord_verdict:
  "(\<not> registered this collection \<longrightarrow>
      (\<exists>verdict. validateRecord this collection obj = Inr verdict
         \<and> code verdict = Incompatible
         \<and> ''Schema not found'' \<in> set (messages verdict)))
   \<and> (registered this collection \<longrightarrow>
      (\<exists>table. findTableForCollection this collection = Inr table
         \<and> table \<in> set (Object_values (records this))
         \<and> plugin_collection table = collection
         \<and> validateRecord this collection obj = validateSchema table obj))"
proof (intro conjI impI)
  assume "\<not> registered this collection"
  then show "\<exists>verdict. validateRecord this collection obj = Inr verdict
         \<and> code verdict = Incompatible
         \<and> ''Schema not found'' \<in> set (messages verdict)"
    by (simp add: validateRecord_def findTableForCollection_unregistered
          ValidationResult_t_def new_ValidationResult_def)
next
  assume "registered this collection"
  then obtain table where t: "findTableForCollection this collection = Inr table"
      "table \<in> set (Object_values (records this))" "plugin_collection table = collection"
    using findTableForCollection_registered by blast
  then show "\<exists>table. findTableForCollection this collection = Inr table
         \<and> table \<in> set (Object_values (records this))
         \<and> plugin_collection table = collection
         \<and> validateRecord this collection obj = validateSchema table obj"
    by (auto simp: validateRecord_def)
qed

theorem validateRecord_verdict_witness:
  "\<not> registered (demo_store [] [] []) ''app.bsky.zap''
   \<and> validateRecord (demo_store [] [] []) ''app.bsky.zap'' ''x''
       = Inr \<lparr>code = Incompatible, messages = [''Schema not found'']\<rparr>
   \<and> registered (demo_store [] [] []) ''app.bsky.like''
   \<and> validateRecord (demo_store [] [] []) ''app.bsky.like'' ''x''
       = validateSchema (demo_plugin ''app.bsky.like'') ''x''"
proof -
  have u: "\<not> registered (demo_store [] [] []) ''app.bsky.zap''"
    by (simp add: demo_defs)
  have r: "registered (demo_store [] [] []) ''app.bsky.like''"
    by (simp add: demo_defs)
  have f: "findTableForCollection (demo_store [] [] []) ''app.bsky.like''
             = Inr (demo_plugin ''app.bsky.like'')"
    by (simp add: findTableForCollection_def demo_defs)
  from validateRecord_verdict [of "demo_store [] [] []" "''app.bsky.zap''" "''x''"] u
  have "\<exists>verdict. validateRecord (demo_store [] [] []) ''app.bsky.zap'' ''x'' = Inr verdict"
    by blast
  moreover have "validateRecord (demo_store [] [] []) ''app.bsky.zap'' ''x''
       = Inr \<lparr>code = Incompatible, messages = [''Schema not found'']\<rparr>"
    by (simp add: validateRecord_def findTableForCollection_def demo_defs
          ValidationResult_t_def new_ValidationResult_def)
  moreover from validateRecord_verdict [of "demo_store [] [] []" "''app.bsky.like''" "''x''"] r f
  have "validateRecord (demo_store [] [] []) ''app.bsky.like'' ''x''
       = validateSchema (demo_plugin ''app.bsky.like'') ''x''"
    by auto
  ultimately show ?thesis using u r by blast
qed

text \<open>
  C6: for a collection with a registered plugin, \<open>canIndexRecord\<close> is the validity of
  what \<open>validateRecord\<close> returns (and raises what it raises); for a collection with
  no registered plugin, \<open>canIndexRecord\<close> raises the error of the lookup, while
  \<open>validateRecord\<close> returns a verdict.
\<close>

theorem canIndexRecord_validateRecord:
  "(registered this collection \<longrightarrow>
      canIndexRecord this collection obj = map_sum id valid (validateRecord this collection obj))
   \<and> (\<not> registered this collection \<longrightarrow>
      canIndexRecord this collection obj = Inl (Error ''Could not find table for collection'')
      \<and> (\<exists>verdict. validateRecord this collection obj = Inr verdict))"
proof (intro conjI impI)
  assume "registered this collection"
  then obtain table where "findTableForCollection this collection = Inr table"
    using findTableForCollection_registered by blast
  then show "canIndexRecord this collection obj
               = map_sum id valid (validateRecord this collection obj)"
    by (simp add: canIndexRecord_def validateRecord_def split: sum.splits)
next
  assume "\<not> registered this collection"
  then show "canIndexRecord this collection obj
               = Inl (Error ''Could not find table for collection'')"
    by (simp add: canIndexRecord_def findTableForCollection_unregistered)
next
  assume "\<not> registered this collection"
  then show "\<exists>verdict. validateRecord this collection obj = Inr verdict"
    by (simp add: validateRecord_def findTableForCollection_unregistered)
qed

theorem canIndexRecord_validateRecord_witness:
  "registered (demo_store [] [] []) ''app.bsky.post''
   \<and> canIndexRecord (demo_store [] [] []) ''app.bsky.post'' ''x'' = Inr True
   \<and> canIndexRecord (demo_store [] [] []) ''app.bsky.post'' ''''
       = map_sum id valid (validateRecord (demo_store [] [] []) ''app.bsky.post'' '''')
   \<and> canIndexRecord (demo_store [] [] []) ''app.bsky.post'' '''' = Inr False
   \<and> \<not> registered (demo_store [] [] []) ''app.bsky.zap''
   \<and> canIndexRecord (demo_store [] [] []) ''app.bsky.zap'' ''x''
       = Inl (Error ''Could not find table for collection'')"
proof -
  have r: "registered (demo_store [] [] []) ''app.bsky.post''"
    by (simp add: demo_defs)
  have u: "\<not> registered (demo_store [] [] []) ''app.bsky.zap''"
    by (simp add: demo_defs)
  have v: "validateRecord (demo_store [] [] []) ''app.bsky.post'' ''''
             = Inr \<lparr>code = Invalid, messages = [''empty'']\<rparr>"
    by (simp add: validateRecord_def findTableForCollection_def demo_defs
          ValidationResult_t_def new_ValidationResult_def)
  have w: "validateRecord (demo_store [] [] []) ''app.bsky.post'' ''x''
             = Inr \<lparr>code = Full, messages = []\<rparr>"
    by (simp add: validateRecord_def findTableForCollection_def demo_defs
          ValidationResult_t_def new_ValidationResult_def)
  from canIndexRecord_validateRecord [of "demo_store [] [] []" "''app.bsky.post''" "''''"] r
  have a: "canIndexRecord (demo_store [] [] []) ''app.bsky.post'' ''''
       = map_sum id valid (validateRecord (demo_store [] [] []) ''app.bsky.post'' '''')"
    by blast
  from canIndexRecord_validateRecord [of "demo_store [] [] []" "''app.bsky.post''" "''x''"] r w
  have b: "canIndexRecord (demo_store [] [] []) ''app.bsky.post'' ''x'' = Inr True"
    by (simp add: valid_def)
  from a v have c: "canIndexRecord (demo_store [] [] []) ''app.bsky.post'' '''' = Inr False"
    by (simp add: valid_def)
  from canIndexRecord_validateRecord [of "demo_store [] [] []" "''app.bsky.zap''" "''x''"] u
  have d: "canIndexRecord (demo_store [] [] []) ''app.bsky.zap'' ''x''
       = Inl (Error ''Could not find table for collection'')"
    by blast
  from r u a b c d show ?thesis by blast
qed

subsection \<open>Rejections\<close>

text \<open>
  C4, as stated, fails: the payload is serialised before the URI is checked, and a
  payload that \<open>JSON.stringify\<close> cannot serialise ends the call with the error of
  the serialiser, which is not a contract violation. In the small store the payload
  \<open>10n\<close> is such a payload.
\<close>

theorem indexRecord_rejects_counterexample:
  "\<not> prefix ''did:'' ''alice.test''
   \<and> indexRecord demo_stringify ''t1'' ''t2'' (demo_store [demo_row ''a''] [] [])
         ((demo_uri ''b'')\<lparr>uri_host := ''alice.test''\<rparr>) ''10n''
       = (Inl TypeError, demo_store [demo_row ''a''] [] [])
   \<and> \<not> ContractViolation TypeError"
  by (simp add: indexRecord_def demo_stringify_def demo_uri_def ContractViolation_def)

text \<open>
  C4, amended: when the host of the URI does not start with \<open>did:\<close>, or its
  collection is empty, or its record key is empty, \<open>indexRecord\<close> fails and returns
  the store as it was: the record log, the typed tables and the notification table
  are unchanged. The failure is a contract violation whenever \<open>JSON.stringify\<close>
  returns a text for the payload, and the error of \<open>JSON.stringify\<close> otherwise.
\<close>

theorem indexRecord_rejects_malformed_uri:
  assumes "\<not> prefix ''did:'' (uri_host uri) \<or> uri_collection uri = []
           \<or> uri_recordKey uri = []"
  shows "(\<forall>raw. JSON_stringify obj = Inr raw
            \<longrightarrow> (\<exists>e. ContractViolation e
                   \<and> indexRecord JSON_stringify now1 now2 this uri obj = (Inl e, this)))
         \<and> (\<forall>e. JSON_stringify obj = Inl e
            \<longrightarrow> indexRecord JSON_stringify now1 now2 this uri obj = (Inl e, this))"
proof (intro conjI allI impI)
  fix raw
  assume raw: "JSON_stringify obj = Inr raw"
  show "\<exists>e. ContractViolation e
          \<and> indexRecord JSON_stringify now1 now2 this uri obj = (Inl e, this)"
  proof (cases "prefix ''did:'' (uri_host uri)")
    case False
    with raw show ?thesis
      by (simp add: indexRecord_def ContractViolation_def)
  next
    case host: True
    show ?thesis
    proof (cases "uri_collection uri = []")
      case True
      with host raw show ?thesis
        by (simp add: indexRecord_def ContractViolation_def)
    next
      case False
      with host assms have "uri_recordKey uri = []"
        by simp
      with host False raw show ?thesis
        by (simp add: indexRecord_def ContractViolation_def)
    qed
  qed
next
  fix e
  assume "JSON_stringify obj = Inl e"
  then show "indexRecord JSON_stringify now1 now2 this uri obj = (Inl e, this)"
    by (simp add: indexRecord_def)
qed

theorem indexRecord_rejects_malformed_uri_witness:
  "\<not> prefix ''did:'' ''alice.test''
   \<and> demo_stringify ''x'' = Inr ''[x]''
   \<and> ContractViolation (Error ''Expected indexed URI to contain DID'')
   \<and> indexRecord demo_stringify ''t1'' ''t2'' (demo_store [demo_row ''a''] [] [])
         ((demo_uri ''b'')\<lparr>uri_host := ''alice.test''\<rparr>) ''x''
       = (Inl (Error ''Expected indexed URI to contain DID''), demo_store [demo_row ''a''] [] [])
   \<and> ContractViolation (Error ''Expected indexed URI to contain a collection'')
   \<and> indexRecord demo_stringify ''t1'' ''t2'' (demo_store [demo_row ''a''] [] [])
         ((demo_uri ''b'')\<lparr>uri_collection := ''''\<rparr>) ''x''
       = (Inl (Error ''Expected indexed URI to contain a collection''),
          demo_store [demo_row ''a''] [] [])
   \<and> ContractViolation (Error ''Expected indexed URI to contain a record key'')
   \<and> indexRecord demo_stringify ''t1'' ''t2'' (demo_store [demo_row ''a''] [] [])
         (demo_uri '''') ''x''
       = (Inl (Error ''Expected indexed URI to contain a record key''),
          demo_store [demo_row ''a''] [] [])
   \<and> demo_stringify ''10n'' = Inl TypeError
   \<and> indexRecord demo_stringify ''t1'' ''t2'' (demo_store [demo_row ''a''] [] [])
         (demo_uri '''') ''10n''
       = (Inl TypeError, demo_store [demo_row ''a''] [] [])"
proof -
  let ?s = "demo_store [demo_row ''a''] [] []"
  let ?u1 = "(demo_uri ''b'')\<lparr>uri_host := ''alice.test''\<rparr>"
  let ?u2 = "(demo_uri ''b'')\<lparr>uri_collection := ''''\<rparr>"
  let ?u3 = "demo_uri ''''"
  have h1: "\<not> prefix ''did:'' (uri_host ?u1) \<or> uri_collection ?u1 = []
              \<or> uri_recordKey ?u1 = []"
    by (simp add: demo_uri_def)
  have h2: "\<not> prefix ''did:'' (uri_host ?u2) \<or> uri_collection ?u2 = []
              \<or> uri_recordKey ?u2 = []"
    by (simp add: demo_uri_def)
  have h3: "\<not> prefix ''did:'' (uri_host ?u3) \<or> uri_collection ?u3 = []
              \<or> uri_recordKey ?u3 = []"
    by (simp add: demo_uri_def)
  have x: "demo_stringify ''x'' = Inr ''[x]''"
    by (simp add: demo_stringify_def)
  have n: "demo_stringify ''10n'' = Inl TypeError"
    by (simp add: demo_stringify_def)
  note t = indexRecord_rejects_malformed_uri [of _ demo_stringify _ "''t1''" "''t2''" ?s]
  from t [OF h1, of "''x''"] x obtain e1 where e1: "ContractViolation e1"
      "indexRecord demo_stringify ''t1'' ''t2'' ?s ?u1 ''x'' = (Inl e1, ?s)"
    by blast
  from t [OF h2, of "''x''"] x obtain e2 where e2: "ContractViolation e2"
      "indexRecord demo_stringify ''t1'' ''t2'' ?s ?u2 ''x'' = (Inl e2, ?s)"
    by blast
  from t [OF h3, of "''x''"] x obtain e3 where e3: "ContractViolation e3"
      "indexRecord demo_stringify ''t1'' ''t2'' ?s ?u3 ''x'' = (Inl e3, ?s)"
    by blast
  from t [OF h3, of "''10n''"] n
  have big: "indexRecord demo_stringify ''t1'' ''t2'' ?s ?u3 ''10n'' = (Inl TypeError, ?s)"
    by blast
  have "fst (indexRecord demo_stringify ''t1'' ''t2'' ?s ?u1 ''x'')
          = Inl (Error ''Expected indexed URI to contain DID'')"
    by (simp add: indexRecord_def demo_uri_def x)
  with e1 have 1: "e1 = Error ''Expected indexed URI to contain DID''"
    by simp
  have "fst (indexRecord demo_stringify ''t1'' ''t2'' ?s ?u2 ''x'')
          = Inl (Error ''Expected indexed URI to contain a collection'')"
    by (simp add: indexRecord_def demo_uri_def x)
  with e2 have 2: "e2 = Error ''Expected indexed URI to contain a collection''"
    by simp
  have "fst (indexRecord demo_stringify ''t1'' ''t2'' ?s ?u3 ''x'')
          = Inl (Error ''Expected indexed URI to contain a record key'')"
    by (simp add: indexRecord_def demo_uri_def x)
  with e3 have 3: "e3 = Error ''Expected indexed URI to contain a record key''"
    by simp
  have "\<not> prefix ''did:'' ''alice.test''"
    by simp
  with e1 e2 e3 x n big show ?thesis
    unfolding 1 2 3 by blast
qed

text \<open>
  C10: for a URI whose collection has no registered plugin, \<open>deleteRecord\<close> fails with
  the error of the lookup and returns the store as it was: none of the three removals
  has run.
\<close>

theorem deleteRecord_unregistered:
  assumes "\<not> registered this (uri_collection uri)"
  shows "deleteRecord this uri = (Inl (Error ''Could not find table for collection''), this)"
  using assms by (simp add: deleteRecord_def findTableForCollection_unregistered)

theorem deleteRecord_unregistered_witness:
  "\<not> registered (demo_store [demo_row ''a''] [] []) ''app.bsky.zap''
   \<and> deleteRecord (demo_store [demo_row ''a''] [] [])
         ((demo_uri ''a'')\<lparr>uri_collection := ''app.bsky.zap''\<rparr>)
       = (Inl (Error ''Could not find table for collection''), demo_store [demo_row ''a''] [] [])"
proof -
  have u: "\<not> registered (demo_store [demo_row ''a''] [] [])
             (uri_collection ((demo_uri ''a'')\<lparr>uri_collection := ''app.bsky.zap''\<rparr>))"
    by (simp add: demo_defs)
  from deleteRecord_unregistered [OF u] u show ?thesis
    by simp
qed

subsection \<open>Feed items\<close>

lemma rowToFeedItem_undecodable:
  "JSON_parse (recordRaw row) = None \<Longrightarrow> rowToFeedItem JSON_parse row = Inl SyntaxError"
  by (simp add: rowToFeedItem_def)

text \<open>
  C8: \<open>rowToFeedItem\<close> is a function of the row alone. Whenever the stored payload of
  the row can be decoded, the item's author is made of the author columns,
  \<open>repostedBy\<close> is made of the originator columns exactly when the type of the row is
  \<open>repost\<close> and is undefined otherwise, and \<open>myState.like\<close> and \<open>myState.repost\<close> are
  \<open>requesterLike\<close> and \<open>requesterRepost\<close>, undefined where the column is null.
\<close>

theorem rowToFeedItem_projection:
  assumes "JSON_parse (recordRaw row) = Some parsed"
  shows "\<exists>item. rowToFeedItem JSON_parse row = Inr item
           \<and> item_author item
               = \<lparr>actor_did = authorDid row, actor_name = authorName row,
                  actor_displayName = authorDisplayName row\<rparr>
           \<and> item_repostedBy item
               = (if row_type row = Repost
                  then Some \<lparr>actor_did = originatorDid row, actor_name = originatorName row,
                             actor_displayName = originatorDisplayName row\<rparr>
                  else None)
           \<and> myState_like (item_myState item) = requesterLike row
           \<and> myState_repost (item_myState item) = requesterRepost row
           \<and> item_record item = parsed"
  using assms by (simp add: rowToFeedItem_def)

text \<open>
  The feed projection scenario of the specification: a repost of a post by \<open>did:x\<close>,
  reposted by \<open>did:y\<close>, that the requester has reposted and not liked.
\<close>

theorem rowToFeedItem_projection_witness:
  "demo_parse ''[hello]'' = Some ''hello''
   \<and> (\<exists>item.
        rowToFeedItem demo_parse
          \<lparr>row_type = Repost, postUri = ''at://did:x/app.x.post/p'', cursor = ''c'',
           recordRaw = ''[hello]'', indexedAt = ''t'', authorDid = ''did:x'',
           authorName = ''x.test'', authorDisplayName = None, originatorDid = ''did:y'',
           originatorName = ''y.test'', originatorDisplayName = None, likeCount = 0,
           repostCount = 1, replyCount = 0,
           requesterRepost = Some ''at://did:x/app.x.repost/abc'', requesterLike = None\<rparr>
          = Inr item
        \<and> actor_did (item_author item) = ''did:x''
        \<and> map_option actor_did (item_repostedBy item) = Some ''did:y''
        \<and> myState_like (item_myState item) = None
        \<and> myState_repost (item_myState item) = Some ''at://did:x/app.x.repost/abc'')"
proof -
  let ?row = "\<lparr>row_type = Repost, postUri = ''at://did:x/app.x.post/p'', cursor = ''c'',
           recordRaw = ''[hello]'', indexedAt = ''t'', authorDid = ''did:x'',
           authorName = ''x.test'', authorDisplayName = None, originatorDid = ''did:y'',
           originatorName = ''y.test'', originatorDisplayName = None, likeCount = 0,
           repostCount = 1, replyCount = 0,
           requesterRepost = Some ''at://did:x/app.x.repost/abc'', requesterLike = None\<rparr>"
  have p: "demo_parse ''[hello]'' = Some ''hello''"
    by (simp add: demo_parse_def)
  then have "demo_parse (recordRaw ?row) = Some ''hello''"
    by simp
  from rowToFeedItem_projection [of demo_parse ?row "''hello''", OF this] obtain item where
    "rowToFeedItem demo_parse ?row = Inr item"
    "item_author item = \<lparr>actor_did = authorDid ?row, actor_name = authorName ?row,
                  actor_displayName = authorDisplayName ?row\<rparr>"
    "item_repostedBy item
               = (if row_type ?row = Repost
                  then Some \<lparr>actor_did = originatorDid ?row, actor_name = originatorName ?row,
                             actor_displayName = originatorDisplayName ?row\<rparr>
                  else None)"
    "myState_like (item_myState item) = requesterLike ?row"
    "myState_repost (item_myState item) = requesterRepost ?row"
    by blast
  then have "rowToFeedItem demo_parse ?row = Inr item
        \<and> actor_did (item_author item) = ''did:x''
        \<and> map_option actor_did (item_repostedBy item) = Some ''did:y''
        \<and> myState_like (item_myState item) = None
        \<and> myState_repost (item_myState item) = Some ''at://did:x/app.x.repost/abc''"
    by simp
  with p show ?thesis
    by blast
qed

subsection \<open>Writing, reading and deleting a record\<close>

lemma find_append_last:
  "\<forall>x \<in> set xs. \<not> P x \<Longrightarrow> P y \<Longrightarrow> find P (xs @ [y]) = Some y"
  by (induction xs) auto

lemma find_filter_out:
  "find P (filter (\<lambda>x. \<not> P x) xs) = None"
  by (induction xs) auto

lemma indexRecord_Inr_record_tbl:
  assumes "indexRecord JSON_stringify now1 now2 this uri obj = (Inr (), this')"
  shows "\<exists>raw. JSON_stringify obj = Inr raw
           \<and> uri_toString uri \<notin> set (map row_uri (record_tbl (db this)))
           \<and> record_tbl (db this')
               = record_tbl (db this)
                 @ [\<lparr>row_uri = uri_toString uri, row_did = uri_host uri,
                     row_collection = uri_collection uri, row_recordKey = uri_recordKey uri,
                     row_raw = raw, row_indexedAt = now1,
                     row_receivedAt = now2\<rparr>]"
proof (cases "JSON_stringify obj")
  case (Inl e)
  with assms show ?thesis
    by (simp add: indexRecord_def)
next
  case (Inr raw)
  with assms show ?thesis
    by (auto simp: indexRecord_def insertInto_record_def Let_def
             split: if_splits sum.splits prod.splits)
qed

lemma res_map_out_uri:
  "res_map JSON_parse rows = Inr out \<Longrightarrow> map out_uri out = map row_uri rows"
  by (induction rows arbitrary: out) (auto split: option.splits sum.splits)

lemma set_listRecordsForCollection_res:
  "set (listRecordsForCollection_res this did collection limit reverse before_key after_key)
   \<subseteq> set (record_tbl (db this))"
proof -
  have "set (take limit xs) \<subseteq> set xs" for xs :: "record_row list"
    by (rule set_take_subset)
  then show ?thesis
    unfolding listRecordsForCollection_res_def Let_def
    by (fastforce split: if_splits)
qed

lemma deleteRecord_record_tbl:
  assumes "deleteRecord this uri = (r, this')" "registered this (uri_collection uri)"
  shows "record_tbl (db this')
           = filter (\<lambda>row. row_uri row \<noteq> uri_toString uri) (record_tbl (db this))"
proof -
  from assms(2) obtain table where "findTableForCollection this (uri_collection uri) = Inr table"
    using findTableForCollection_registered by blast
  with assms(1) show ?thesis
    by (auto simp: deleteRecord_def Let_def)
qed

text \<open>
  C1: after \<open>indexRecord\<close> has succeeded on a URI and a payload that the platform's
  JSON functions carry through unchanged (the text that \<open>JSON.stringify\<close> returns
  for it is decoded to it by \<open>JSON.parse\<close>), \<open>getRecord\<close> of the URI returns the
  payload, and the collection of the URI is among the collections listed for its
  host.
\<close>

theorem indexRecord_round_trip:
  assumes "indexRecord JSON_stringify now1 now2 this uri obj = (Inr (), this')"
    and "\<forall>raw. JSON_stringify obj = Inr raw \<longrightarrow> JSON_parse raw = Some obj"
  shows "getRecord JSON_parse this' uri = Inr (Some obj)
         \<and> uri_collection uri \<in> set (listCollectionsForDid this' (uri_host uri))"
proof -
  from indexRecord_Inr_record_tbl [OF assms(1)] obtain raw where
    raw: "JSON_stringify obj = Inr raw"
    and new: "uri_toString uri \<notin> row_uri ` set (record_tbl (db this))"
    and tbl: "record_tbl (db this')
                = record_tbl (db this)
                  @ [\<lparr>row_uri = uri_toString uri, row_did = uri_host uri,
                      row_collection = uri_collection uri,
                      row_recordKey = uri_recordKey uri,
                      row_raw = raw, row_indexedAt = now1, row_receivedAt = now2\<rparr>]"
    by auto
  let ?row = "\<lparr>row_uri = uri_toString uri, row_did = uri_host uri,
                row_collection = uri_collection uri, row_recordKey = uri_recordKey uri,
                row_raw = raw, row_indexedAt = now1, row_receivedAt = now2\<rparr>"
  from raw assms(2) have parse: "JSON_parse raw = Some obj"
    by blast
  from new have fresh: "\<forall>r \<in> set (record_tbl (db this)). \<not> row_uri r = uri_toString uri"
    by (metis imageI)
  have "find (\<lambda>r. row_uri r = uri_toString uri) (record_tbl (db this) @ [?row]) = Some ?row"
    using fresh by (intro find_append_last) simp_all
  with tbl parse have "getRecord JSON_parse this' uri = Inr (Some obj)"
    by (simp add: getRecord_def)
  moreover have "uri_collection uri \<in> set (listCollectionsForDid this' (uri_host uri))"
    using tbl by (simp add: listCollectionsForDid_def Let_def)
  ultimately show ?thesis
    by simp
qed

theorem indexRecord_round_trip_witness:
  "indexRecord demo_stringify ''t1'' ''t2'' (demo_store [demo_row ''a''] [] []) (demo_uri ''b'')
       ''hello''
     = (Inr (),
        \<lparr>db = \<lparr>record_tbl =
                 [demo_row ''a'',
                  \<lparr>row_uri = ''at://did:a/app.bsky.post/b'', row_did = ''did:a'',
                   row_collection = ''app.bsky.post'', row_recordKey = ''b'',
                   row_raw = ''[hello]'', row_indexedAt = ''t1'', row_receivedAt = ''t2''\<rparr>],
               repo_root_tbl = [], user_tbl = [],
               typed_tbls = [''at://did:a/app.bsky.post/b''],
               user_notification_tbl = [''at://did:a/app.bsky.post/b'']\<rparr>,
         records = demo_plugins, notifications = demo_notifications\<rparr>)
   \<and> demo_stringify ''hello'' = Inr ''[hello]''
   \<and> demo_parse ''[hello]'' = Some ''hello''
   \<and> getRecord demo_parse
        (snd (indexRecord demo_stringify ''t1'' ''t2'' (demo_store [demo_row ''a''] [] [])
               (demo_uri ''b'') ''hello''))
        (demo_uri ''b'')
       = Inr (Some ''hello'')
   \<and> ''app.bsky.post''
       \<in> set (listCollectionsForDid
                (snd (indexRecord demo_stringify ''t1'' ''t2'' (demo_store [demo_row ''a''] [] [])
                       (demo_uri ''b'') ''hello''))
                ''did:a'')"
proof -
  have run: "indexRecord demo_stringify ''t1'' ''t2'' (demo_store [demo_row ''a''] [] [])
       (demo_uri ''b'') ''hello''
     = (Inr (),
        \<lparr>db = \<lparr>record_tbl =
                 [demo_row ''a'',
                  \<lparr>row_uri = ''at://did:a/app.bsky.post/b'', row_did = ''did:a'',
                   row_collection = ''app.bsky.post'', row_recordKey = ''b'',
                   row_raw = ''[hello]'', row_indexedAt = ''t1'', row_receivedAt = ''t2''\<rparr>],
               repo_root_tbl = [], user_tbl = [],
               typed_tbls = [''at://did:a/app.bsky.post/b''],
               user_notification_tbl = [''at://did:a/app.bsky.post/b'']\<rparr>,
         records = demo_plugins, notifications = demo_notifications\<rparr>)"
    by (simp add: indexRecord_def insertInto_record_def findTableForCollection_def demo_defs)
  have s: "demo_stringify ''hello'' = Inr ''[hello]''"
    by (simp add: demo_stringify_def)
  have p: "demo_parse ''[hello]'' = Some ''hello''"
    by (simp add: demo_parse_def)
  from s p have rt: "\<forall>raw. demo_stringify ''hello'' = Inr raw
                       \<longrightarrow> demo_parse raw = Some ''hello''"
    by simp
  from indexRecord_round_trip [where JSON_parse = demo_parse, OF run rt] run s p
  show ?thesis
    by (simp add: demo_uri_def)
qed

text \<open>
  C7: after \<open>deleteRecord\<close> has succeeded on a URI whose collection has a registered
  plugin, \<open>getRecord\<close> of the URI returns null, and no list of records of its host and
  collection, whatever the limit, the direction and the bounds, holds the URI.
\<close>

theorem deleteRecord_removes_record:
  assumes "registered this (uri_collection uri)"
    and "deleteRecord this uri = (Inr (), this')"
  shows "getRecord JSON_parse this' uri = Inr None
         \<and> (\<forall>limit reverse before_key after_key res.
               listRecordsForCollection JSON_parse this' (uri_host uri) (uri_collection uri)
                 limit reverse before_key after_key = Inr res
               \<longrightarrow> uri_toString uri \<notin> set (map out_uri res))"
proof -
  from deleteRecord_record_tbl [OF assms(2) assms(1)]
  have tbl: "record_tbl (db this')
               = filter (\<lambda>row. \<not> row_uri row = uri_toString uri) (record_tbl (db this))"
    by simp
  have "find (\<lambda>r. row_uri r = uri_toString uri) (record_tbl (db this')) = None"
    unfolding tbl by (rule find_filter_out)
  then have get: "getRecord JSON_parse this' uri = Inr None"
    by (simp add: getRecord_def)
  have gone: "uri_toString uri \<notin> set (map row_uri (record_tbl (db this')))"
    unfolding tbl by auto
  have "uri_toString uri \<notin> set (map out_uri res)"
    if "listRecordsForCollection JSON_parse this' (uri_host uri) (uri_collection uri)
          limit reverse before_key after_key = Inr res"
    for limit reverse before_key after_key res
  proof -
    from that have "map out_uri res
        = map row_uri (listRecordsForCollection_res this' (uri_host uri) (uri_collection uri)
                         limit reverse before_key after_key)"
      unfolding listRecordsForCollection_def by (rule res_map_out_uri)
    moreover have "set (map row_uri (listRecordsForCollection_res this' (uri_host uri)
                         (uri_collection uri) limit reverse before_key after_key))
                     \<subseteq> set (map row_uri (record_tbl (db this')))"
      unfolding set_map by (intro image_mono set_listRecordsForCollection_res)
    ultimately show ?thesis
      using gone by auto
  qed
  with get show ?thesis
    by blast
qed

theorem deleteRecord_removes_record_witness:
  "registered (demo_store [demo_row ''a'', demo_row ''b''] [] []) ''app.bsky.post''
   \<and> fst (deleteRecord (demo_store [demo_row ''a'', demo_row ''b''] [] []) (demo_uri ''a''))
       = Inr ()
   \<and> getRecord demo_parse
        (snd (deleteRecord (demo_store [demo_row ''a'', demo_row ''b''] [] []) (demo_uri ''a'')))
        (demo_uri ''a'')
       = Inr None
   \<and> listRecordsForCollection demo_parse
        (snd (deleteRecord (demo_store [demo_row ''a'', demo_row ''b''] [] []) (demo_uri ''a'')))
        ''did:a'' ''app.bsky.post'' 10 False None None
       = Inr [\<lparr>out_uri = ''at://did:a/app.bsky.post/b'', out_value = ''b''\<rparr>]"
proof -
  let ?s = "demo_store [demo_row ''a'', demo_row ''b''] [] []"
  have r: "registered ?s (uri_collection (demo_uri ''a''))"
    by (simp add: demo_defs)
  have ok: "fst (deleteRecord ?s (demo_uri ''a'')) = Inr ()"
    by (simp add: deleteRecord_def findTableForCollection_def demo_defs)
  then have run: "deleteRecord ?s (demo_uri ''a'')
                    = (Inr (), snd (deleteRecord ?s (demo_uri ''a'')))"
    by (metis prod.collapse)
  from deleteRecord_removes_record [OF r run, of demo_parse]
  have g: "getRecord demo_parse (snd (deleteRecord ?s (demo_uri ''a''))) (demo_uri ''a'')
             = Inr None"
    by blast
  have l: "listRecordsForCollection demo_parse (snd (deleteRecord ?s (demo_uri ''a'')))
        ''did:a'' ''app.bsky.post'' 10 False None None
       = Inr [\<lparr>out_uri = ''at://did:a/app.bsky.post/b'', out_value = ''b''\<rparr>]"
    by (simp add: deleteRecord_def findTableForCollection_def demo_defs
          listRecordsForCollection_def listRecordsForCollection_res_def)
  from r ok g l show ?thesis
    by (simp add: demo_uri_def)
qed

subsection \<open>Repository roots\<close>

lemma find_map_update:
  "find (\<lambda>r. repo_root_did r = did')
     (map (\<lambda>r. if repo_root_did r = did then r\<lparr>repo_root_root := x\<rparr> else r) rows)
   = map_option (\<lambda>r. if repo_root_did r = did then r\<lparr>repo_root_root := x\<rparr> else r)
       (find (\<lambda>r. repo_root_did r = did') rows)"
  by (induction rows) auto

lemma find_repo_root_None:
  "find (\<lambda>r. repo_root_did r = did) rows = None
   \<longleftrightarrow> did \<notin> set (map repo_root_did rows)"
  by (induction rows) auto

lemma getRepoRoot_updateRepoRoot:
  assumes "did \<in> set (map repo_root_did (repo_root_tbl (db this)))"
    and "CID_parse (CID_toString root) = Some root"
  shows "getRepoRoot CID_parse (snd (updateRepoRoot CID_toString this did root)) did
           = Inr (Some root)"
proof -
  from assms(1) obtain found where
    "find (\<lambda>r. repo_root_did r = did) (repo_root_tbl (db this)) = Some found"
    using find_repo_root_None [of did "repo_root_tbl (db this)"] by fastforce
  moreover from this have "repo_root_did found = did"
    by (auto simp: find_Some_iff)
  ultimately show ?thesis
    using assms(2)
    by (simp add: getRepoRoot_def updateRepoRoot_def Let_def find_map_update)
qed

lemma updateRepoRoot_keeps_rows:
  "set (map repo_root_did (repo_root_tbl (db (snd (updateRepoRoot CID_toString this did root)))))
   = set (map repo_root_did (repo_root_tbl (db this)))"
proof -
  have "map repo_root_did
          (map (\<lambda>r. if repo_root_did r = did then r\<lparr>repo_root_root := x\<rparr> else r) rows)
        = map repo_root_did rows" for x rows
    by (induction rows) auto
  from this [of "CID_toString root" "repo_root_tbl (db this)"] show ?thesis
    by (simp only: updateRepoRoot_def Let_def snd_conv) simp
qed

lemma updateRepoRoot_no_row:
  assumes "did \<notin> set (map repo_root_did (repo_root_tbl (db this)))"
  shows "updateRepoRoot CID_toString this did root = (Inr (), this)"
proof -
  have "map (\<lambda>r. if repo_root_did r = did then r\<lparr>repo_root_root := CID_toString root\<rparr> else r)
          (repo_root_tbl (db this))
        = repo_root_tbl (db this)"
    using assms by (intro map_idI) auto
  then show ?thesis
    by (simp add: updateRepoRoot_def Let_def)
qed

lemma getRepoRoot_null_iff:
  "getRepoRoot CID_parse this did = Inr None
   \<longleftrightarrow> did \<notin> set (map repo_root_did (repo_root_tbl (db this)))"
  using find_repo_root_None [of did "repo_root_tbl (db this)"]
  by (auto simp: getRepoRoot_def split: option.splits)

text \<open>
  C3, as stated, fails: \<open>updateRepoRoot\<close> issues an update of the rows of the
  identity and never inserts one. On a table with no row for \<open>did:a\<close> the call
  succeeds, and \<open>getRepoRoot\<close> still returns null instead of the root.
\<close>

theorem updateRepoRoot_counterexample:
  "fst (updateRepoRoot demo_CID_toString (demo_store [] [] []) ''did:a'' ''bafyroot'') = Inr ()
   \<and> getRepoRoot demo_CID_parse
        (snd (updateRepoRoot demo_CID_toString (demo_store [] [] []) ''did:a'' ''bafyroot''))
        ''did:a''
       = Inr None
   \<and> getRepoRoot demo_CID_parse
        (snd (updateRepoRoot demo_CID_toString (demo_store [] [] []) ''did:a'' ''bafyroot''))
        ''did:a''
       \<noteq> Inr (Some ''bafyroot'')"
  by (simp add: updateRepoRoot_def getRepoRoot_def demo_store_def)

text \<open>
  C3, amended: for an identity that has a row in the table, \<open>updateRepoRoot\<close>
  overwrites the root whatever it was, with no check of the prior value, so that
  \<open>getRepoRoot\<close> then returns the new root, and a second update wins over the first;
  for an identity with no row, \<open>updateRepoRoot\<close> changes nothing; \<open>getRepoRoot\<close>
  returns null exactly for an identity with no row. Roots are content addresses that
  \<open>CID.parse\<close> reads back from their text.
\<close>

theorem updateRepoRoot_overwrites:
  "(did \<in> set (map repo_root_did (repo_root_tbl (db this)))
      \<and> CID_parse (CID_toString root) = Some root
      \<and> CID_parse (CID_toString root') = Some root'
    \<longrightarrow> fst (updateRepoRoot CID_toString this did root) = Inr ()
        \<and> getRepoRoot CID_parse (snd (updateRepoRoot CID_toString this did root)) did
            = Inr (Some root)
        \<and> getRepoRoot CID_parse
             (snd (updateRepoRoot CID_toString
                     (snd (updateRepoRoot CID_toString this did root)) did root')) did
            = Inr (Some root'))
   \<and> (did \<notin> set (map repo_root_did (repo_root_tbl (db this)))
    \<longrightarrow> updateRepoRoot CID_toString this did root = (Inr (), this))
   \<and> (getRepoRoot CID_parse this did = Inr None
    \<longleftrightarrow> did \<notin> set (map repo_root_did (repo_root_tbl (db this))))"
proof (intro conjI impI)
  show "fst (updateRepoRoot CID_toString this did root) = Inr ()"
    by (simp add: updateRepoRoot_def Let_def)
next
  assume "did \<in> set (map repo_root_did (repo_root_tbl (db this)))
      \<and> CID_parse (CID_toString root) = Some root
      \<and> CID_parse (CID_toString root') = Some root'"
  then show "getRepoRoot CID_parse (snd (updateRepoRoot CID_toString this did root)) did
            = Inr (Some root)"
    by (intro getRepoRoot_updateRepoRoot) simp_all
next
  assume a: "did \<in> set (map repo_root_did (repo_root_tbl (db this)))
      \<and> CID_parse (CID_toString root) = Some root
      \<and> CID_parse (CID_toString root') = Some root'"
  then have "did \<in> set (map repo_root_did
               (repo_root_tbl (db (snd (updateRepoRoot CID_toString this did root)))))"
    unfolding updateRepoRoot_keeps_rows by simp
  with a show "getRepoRoot CID_parse
             (snd (updateRepoRoot CID_toString
                     (snd (updateRepoRoot CID_toString this did root)) did root')) did
            = Inr (Some root')"
    by (intro getRepoRoot_updateRepoRoot) simp_all
next
  assume "did \<notin> set (map repo_root_did (repo_root_tbl (db this)))"
  then show "updateRepoRoot CID_toString this did root = (Inr (), this)"
    by (rule updateRepoRoot_no_row)
next
  show "getRepoRoot CID_parse this did = Inr None
    \<longleftrightarrow> did \<notin> set (map repo_root_did (repo_root_tbl (db this)))"
    by (rule getRepoRoot_null_iff)
qed

theorem updateRepoRoot_overwrites_witness:
  "''did:a'' \<in> set (map repo_root_did
       (repo_root_tbl (db (demo_store []
          [\<lparr>repo_root_did = ''did:a'', repo_root_root = ''bafyold''\<rparr>] []))))
   \<and> demo_CID_parse (demo_CID_toString ''bafynew'') = Some ''bafynew''
   \<and> demo_CID_parse (demo_CID_toString ''bafylast'') = Some ''bafylast''
   \<and> getRepoRoot demo_CID_parse
        (demo_store [] [\<lparr>repo_root_did = ''did:a'', repo_root_root = ''bafyold''\<rparr>] [])
        ''did:a''
       = Inr (Some ''bafyold'')
   \<and> getRepoRoot demo_CID_parse
        (snd (updateRepoRoot demo_CID_toString
                (demo_store [] [\<lparr>repo_root_did = ''did:a'', repo_root_root = ''bafyold''\<rparr>] [])
                ''did:a'' ''bafynew''))
        ''did:a''
       = Inr (Some ''bafynew'')
   \<and> getRepoRoot demo_CID_parse
        (snd (updateRepoRoot demo_CID_toString
                (snd (updateRepoRoot demo_CID_toString
                        (demo_store []
                           [\<lparr>repo_root_did = ''did:a'', repo_root_root = ''bafyold''\<rparr>] [])
                        ''did:a'' ''bafynew''))
                ''did:a'' ''bafylast''))
        ''did:a''
       = Inr (Some ''bafylast'')
   \<and> ''did:b'' \<notin> set (map repo_root_did
       (repo_root_tbl (db (demo_store []
          [\<lparr>repo_root_did = ''did:a'', repo_root_root = ''bafyold''\<rparr>] []))))
   \<and> updateRepoRoot demo_CID_toString
        (demo_store [] [\<lparr>repo_root_did = ''did:a'', repo_root_root = ''bafyold''\<rparr>] [])
        ''did:b'' ''bafynew''
       = (Inr (), demo_store [] [\<lparr>repo_root_did = ''did:a'', repo_root_root = ''bafyold''\<rparr>] [])
   \<and> getRepoRoot demo_CID_parse
        (demo_store [] [\<lparr>repo_root_did = ''did:a'', repo_root_root = ''bafyold''\<rparr>] [])
        ''did:b''
       = Inr None"
proof -
  let ?s = "demo_store [] [\<lparr>repo_root_did = ''did:a'', repo_root_root = ''bafyold''\<rparr>] []"
  have a: "''did:a'' \<in> set (map repo_root_did (repo_root_tbl (db ?s)))"
    by (simp add: demo_store_def)
  have b: "''did:b'' \<notin> set (map repo_root_did (repo_root_tbl (db ?s)))"
    by (simp add: demo_store_def)
  have p: "demo_CID_parse (demo_CID_toString ''bafynew'') = Some ''bafynew''"
    "demo_CID_parse (demo_CID_toString ''bafylast'') = Some ''bafylast''"
    by (simp_all add: demo_CID_parse_def demo_CID_toString_def)
  have old: "getRepoRoot demo_CID_parse ?s ''did:a'' = Inr (Some ''bafyold'')"
    by (simp add: getRepoRoot_def demo_store_def demo_CID_parse_def)
  note t = updateRepoRoot_overwrites [of _ ?s demo_CID_parse demo_CID_toString]
  from t [of "''did:a''" "''bafynew''" "''bafylast''"] a p
  have new: "getRepoRoot demo_CID_parse
        (snd (updateRepoRoot demo_CID_toString ?s ''did:a'' ''bafynew'')) ''did:a''
       = Inr (Some ''bafynew'')"
    and last: "getRepoRoot demo_CID_parse
        (snd (updateRepoRoot demo_CID_toString
                (snd (updateRepoRoot demo_CID_toString ?s ''did:a'' ''bafynew''))
                ''did:a'' ''bafylast'')) ''did:a''
       = Inr (Some ''bafylast'')"
    by blast+
  from t [of "''did:b''" "''bafynew''" "''bafynew''"] b
  have none: "updateRepoRoot demo_CID_toString ?s ''did:b'' ''bafynew'' = (Inr (), ?s)"
    and null: "getRepoRoot demo_CID_parse ?s ''did:b'' = Inr None"
    by blast+
  from a b p old new last none null show ?thesis
    by blast
qed

subsection \<open>Users\<close>

lemma find_unique:
  "u \<in> set xs \<Longrightarrow> P u \<Longrightarrow> \<forall>v \<in> set xs. P v \<longrightarrow> v = u \<Longrightarrow> find P xs = Some u"
proof (induction xs)
  case Nil
  then show ?case by simp
next
  case (Cons x xs)
  show ?case
  proof (cases "P x")
    case True
    with Cons.prems(3) have "x = u"
      by simp
    with True show ?thesis
      by simp
  next
    case False
    with Cons.prems(1,2) have "u \<in> set xs"
      by auto
    moreover from Cons.prems(3) have "\<forall>v \<in> set xs. P v \<longrightarrow> v = u"
      by simp
    ultimately have "find P xs = Some u"
      using Cons.prems(2) by (intro Cons.IH)
    with False show ?thesis
      by simp
  qed
qed

lemma find_no_match:
  "\<forall>v \<in> set xs. \<not> P v \<Longrightarrow> find P xs = None"
  by (simp add: find_None_iff)

text \<open>
  Beyond ASCII the two foldings differ, and \<open>getUser\<close> misses a user whose name
  differs from the query only in letter case: the engine leaves the accented letter
  of the stored name as it is, the platform capitalises the one of the query.
\<close>

lemma getUser_beyond_ascii:
  "demo_UPPER (CHR 0xC3 # CHR 0xA9 # ''cole'') = demo_UPPER (CHR 0xC3 # CHR 0xA9 # ''COLE'')
   \<and> demo_UPPER (CHR 0xC3 # CHR 0xA9 # ''COLE'')
       \<noteq> demo_toUpperCase (CHR 0xC3 # CHR 0xA9 # ''COLE'')
   \<and> getUser demo_UPPER demo_toUpperCase
        (demo_store [] [] [demo_user (CHR 0xC3 # CHR 0xA9 # ''cole'') ''did:example:e''])
        (CHR 0xC3 # CHR 0xA9 # ''COLE'')
       = None"
  by code_simp

text \<open>
  C9, as stated, fails: a query that starts with \<open>did:\<close> is looked up by identity,
  not by user name. For the user registered as \<open>Did:bob\<close>, the query \<open>did:bob\<close>
  differs from the user name only in letter case, under either folding, and
  \<open>getUser\<close> does not find the user.
\<close>

theorem getUser_counterexample:
  "user_username (demo_user ''Did:bob'' ''did:example:bob'') = ''Did:bob''
   \<and> demo_UPPER ''did:bob'' = demo_UPPER ''Did:bob''
   \<and> demo_toUpperCase ''did:bob'' = demo_toUpperCase ''Did:bob''
   \<and> ''did:bob'' \<noteq> ''Did:bob''
   \<and> getUser demo_UPPER demo_toUpperCase
        (demo_store [] [] [demo_user ''Did:bob'' ''did:example:bob'']) ''did:bob''
       = None"
  by code_simp

text \<open>
  C9, amended: \<open>verifyUserPassword\<close> compares the user name exactly, \<open>getUser\<close>
  compares the engine's \<open>UPPER\<close> of the stored name with the platform's
  \<open>toUpperCase\<close> of the query. Take a registered user and a query that differs from
  the user's name only in letter case (the engine folds both to the same text, and
  they are not the same text), on which the two foldings agree, as they do on ASCII
  text, and that does not start with \<open>did:\<close>; let the user's name be the only
  registered one that the engine folds to the same text as the query. Then \<open>getUser\<close>
  finds the user and \<open>verifyUserPassword\<close> returns null, whatever the password.
\<close>

theorem verifyUserPassword_case_sensitive:
  assumes "u \<in> set (user_tbl (db this))"
    and "UPPER (user_username u) = UPPER query"
    and "query \<noteq> user_username u"
    and "toUpperCase query = UPPER query"
    and "\<not> prefix ''did:'' query"
    and "\<forall>v \<in> set (user_tbl (db this)).
           UPPER (user_username v) = UPPER query \<longrightarrow> v = u"
  shows "getUser UPPER toUpperCase this query = Some u
         \<and> verifyUserPassword scrypt_verify this query password = None"
proof -
  let ?P = "\<lambda>v. UPPER (user_username v) = toUpperCase query"
  have Pu: "?P u"
    unfolding assms(4) by (rule assms(2))
  have only: "\<forall>v \<in> set (user_tbl (db this)). ?P v \<longrightarrow> v = u"
    unfolding assms(4) by (rule assms(6))
  have "find ?P (user_tbl (db this)) = Some u"
    using assms(1) Pu only by (rule find_unique)
  with assms(5) have get: "getUser UPPER toUpperCase this query = Some u"
    by (simp add: getUser_def)
  have "\<not> user_username v = query" if v: "v \<in> set (user_tbl (db this))" for v
  proof
    assume eq: "user_username v = query"
    then have "UPPER (user_username v) = UPPER query"
      by (rule arg_cong)
    with v assms(6) have "v = u"
      by blast
    with eq assms(3) show False
      by blast
  qed
  then have "\<forall>v \<in> set (user_tbl (db this)). \<not> user_username v = query"
    by blast
  then have "find (\<lambda>v. user_username v = query) (user_tbl (db this)) = None"
    by (rule find_no_match)
  then have "verifyUserPassword scrypt_verify this query password = None"
    by (simp add: verifyUserPassword_def)
  with get show ?thesis
    by (rule conjI)
qed

theorem verifyUserPassword_case_sensitive_witness:
  "demo_UPPER ''Alice.Test'' = demo_UPPER ''alice.test''
   \<and> ''alice.test'' \<noteq> ''Alice.Test''
   \<and> demo_toUpperCase ''alice.test'' = demo_UPPER ''alice.test''
   \<and> \<not> prefix ''did:'' ''alice.test''
   \<and> getUser demo_UPPER demo_toUpperCase
        (demo_store [] []
           [demo_user ''bob.test'' ''did:example:bob'',
            demo_user ''Alice.Test'' ''did:example:alice''])
        ''alice.test''
       = Some (demo_user ''Alice.Test'' ''did:example:alice'')
   \<and> verifyUserPassword demo_scrypt_verify
        (demo_store [] []
           [demo_user ''bob.test'' ''did:example:bob'',
            demo_user ''Alice.Test'' ''did:example:alice''])
        ''alice.test'' ''secret''
       = None
   \<and> verifyUserPassword demo_scrypt_verify
        (demo_store [] []
           [demo_user ''bob.test'' ''did:example:bob'',
            demo_user ''Alice.Test'' ''did:example:alice''])
        ''Alice.Test'' ''secret''
       = Some ''did:example:alice''"
proof -
  let ?u = "demo_user ''Alice.Test'' ''did:example:alice''"
  let ?s = "demo_store [] [] [demo_user ''bob.test'' ''did:example:bob'', ?u]"
  have 1: "?u \<in> set (user_tbl (db ?s))"
    by (simp add: demo_store_def)
  have 2: "demo_UPPER (user_username ?u) = demo_UPPER ''alice.test''"
    by code_simp
  have 3: "''alice.test'' \<noteq> user_username ?u"
    by (simp add: demo_user_def)
  have 4: "demo_toUpperCase ''alice.test'' = demo_UPPER ''alice.test''"
    by code_simp
  have 5: "\<not> prefix ''did:'' ''alice.test''"
    by simp
  have 6: "\<forall>v \<in> set (user_tbl (db ?s)).
             demo_UPPER (user_username v) = demo_UPPER ''alice.test'' \<longrightarrow> v = ?u"
    by code_simp
  have 7: "verifyUserPassword demo_scrypt_verify ?s ''Alice.Test'' ''secret''
             = Some ''did:example:alice''"
    by (simp add: verifyUserPassword_def demo_store_def demo_user_def demo_scrypt_verify_def)
  have 8: "demo_UPPER ''Alice.Test'' = demo_UPPER ''alice.test''"
    by code_simp
  from verifyUserPassword_case_sensitive
         [where UPPER = demo_UPPER and toUpperCase = demo_toUpperCase
            and query = "''alice.test''" and scrypt_verify = demo_scrypt_verify
            and password = "''secret''", OF 1 2 3 4 5 6] 3 4 5 7 8
  show ?thesis
    by (simp add: demo_user_def)
qed

subsection \<open>Listing the records of a collection\<close>

lemma map_insort_key: "map f (insort_key f x xs) = insort (f x) (map f xs)"
  by (induction xs) simp_all

lemma map_sort_key: "map f (sort_key f xs) = sort (map f xs)"
  by (induction xs) (simp_all add: map_insort_key)

lemma selected_rows_of:
  "filter (\<lambda>row. row_did row = did \<and> row_collection row = collection
             \<and> (case before_key of None \<Rightarrow> True | Some b \<Rightarrow> row_recordKey row < b)
             \<and> (case after_key of None \<Rightarrow> True | Some a \<Rightarrow> row_recordKey row > a))
     (record_tbl (db this))
   = filter (\<lambda>row. in_bounds before_key after_key (row_recordKey row))
       (rows_of this did collection)"
  unfolding rows_of_def filter_filter in_bounds_def
  by (rule filter_cong) auto

lemma listRecordsForCollection_res_rows_of:
  "listRecordsForCollection_res this did collection limit reverse before_key after_key
   = take limit
       ((if reverse then rev else id)
          (sort_key row_recordKey
             (filter (\<lambda>row. in_bounds before_key after_key (row_recordKey row))
                (rows_of this did collection))))"
  unfolding listRecordsForCollection_res_def Let_def selected_rows_of
  by simp

lemma keys_sorted_selected:
  "map row_recordKey
     (sort_key row_recordKey (filter (\<lambda>row. P (row_recordKey row)) rows))
   = filter P (sort (map row_recordKey rows))"
proof -
  have "map row_recordKey (filter (\<lambda>row. P (row_recordKey row)) rows)
          = filter P (map row_recordKey rows)"
    by (simp add: filter_map comp_def)
  then show ?thesis
    by (simp add: map_sort_key filter_sort)
qed

lemma keys_listRecordsForCollection_res:
  "map row_recordKey
     (listRecordsForCollection_res this did collection limit reverse before_key after_key)
   = take limit
       ((if reverse then rev else id)
          (filter (in_bounds before_key after_key)
             (sort (map row_recordKey (rows_of this did collection)))))"
  unfolding listRecordsForCollection_res_rows_of
  by (simp add: take_map [symmetric] rev_map [symmetric] keys_sorted_selected)

lemma set_listRecordsForCollection_res_rows_of:
  "set (listRecordsForCollection_res this did collection limit reverse before_key after_key)
   \<subseteq> set (rows_of this did collection)"
proof -
  have "set (take limit xs) \<subseteq> set xs" for xs :: "record_row list"
    by (rule set_take_subset)
  from this [of "(if reverse then rev else id)
          (sort_key row_recordKey
             (filter (\<lambda>row. in_bounds before_key after_key (row_recordKey row))
                (rows_of this did collection)))"]
  show ?thesis
    unfolding listRecordsForCollection_res_rows_of by (auto split: if_splits)
qed

lemma res_map_the:
  "\<forall>row \<in> set rows. JSON_parse (row_raw row) \<noteq> None
   \<Longrightarrow> res_map JSON_parse rows
         = Inr (map (\<lambda>row. \<lparr>out_uri = row_uri row,
                             out_value = the (JSON_parse (row_raw row))\<rparr>) rows)"
  by (induction rows) auto

lemma projects_map_the:
  "\<forall>row \<in> set rows. JSON_parse (row_raw row) \<noteq> None
   \<Longrightarrow> projects JSON_parse rows
         (map (\<lambda>row. \<lparr>out_uri = row_uri row,
                       out_value = the (JSON_parse (row_raw row))\<rparr>) rows)"
  unfolding projects_def by (induction rows) auto

lemma listRecordsForCollection_keys:
  assumes "\<forall>row \<in> set (rows_of this did collection). JSON_parse (row_raw row) \<noteq> None"
  shows "\<exists>rows res.
           listRecordsForCollection JSON_parse this did collection limit reverse
               before_key after_key = Inr res
           \<and> projects JSON_parse rows res
           \<and> set rows \<subseteq> set (rows_of this did collection)
           \<and> map row_recordKey rows
               = take limit
                   ((if reverse then rev else id)
                      (filter (in_bounds before_key after_key)
                         (sort (map row_recordKey (rows_of this did collection)))))"
proof -
  let ?rows = "listRecordsForCollection_res this did collection limit reverse
                 before_key after_key"
  have sub: "set ?rows \<subseteq> set (rows_of this did collection)"
    by (rule set_listRecordsForCollection_res_rows_of)
  with assms have ok: "\<forall>row \<in> set ?rows. JSON_parse (row_raw row) \<noteq> None"
    by blast
  have "listRecordsForCollection JSON_parse this did collection limit reverse
          before_key after_key
        = Inr (map (\<lambda>row. \<lparr>out_uri = row_uri row,
                            out_value = the (JSON_parse (row_raw row))\<rparr>) ?rows)"
    unfolding listRecordsForCollection_def using ok by (rule res_map_the)
  moreover have "projects JSON_parse ?rows
        (map (\<lambda>row. \<lparr>out_uri = row_uri row,
                      out_value = the (JSON_parse (row_raw row))\<rparr>) ?rows)"
    using ok by (rule projects_map_the)
  ultimately show ?thesis
    using sub keys_listRecordsForCollection_res by blast
qed

lemma listRecordsForCollection_reverse:
  assumes "\<forall>row \<in> set (rows_of this did collection). JSON_parse (row_raw row) \<noteq> None"
    and "length (filter (in_bounds before_key after_key)
                   (sort (map row_recordKey (rows_of this did collection)))) \<le> limit"
  shows "listRecordsForCollection JSON_parse this did collection limit True
             before_key after_key
         = map_sum id rev
             (listRecordsForCollection JSON_parse this did collection limit False
                before_key after_key)"
proof -
  let ?sel = "sort_key row_recordKey
                (filter (\<lambda>row. in_bounds before_key after_key (row_recordKey row))
                   (rows_of this did collection))"
  have "length ?sel = length (map row_recordKey ?sel)"
    by simp
  also have "\<dots> \<le> limit"
    unfolding keys_sorted_selected using assms(2) .
  finally have len: "length ?sel \<le> limit" .
  have fwd: "listRecordsForCollection_res this did collection limit False
               before_key after_key = ?sel"
    unfolding listRecordsForCollection_res_rows_of using len by simp
  have bwd: "listRecordsForCollection_res this did collection limit True
               before_key after_key = rev ?sel"
    unfolding listRecordsForCollection_res_rows_of using len by simp
  have "set ?sel \<subseteq> set (rows_of this did collection)"
    by auto
  with assms(1) have ok: "\<forall>row \<in> set ?sel. JSON_parse (row_raw row) \<noteq> None"
    by blast
  then have ok': "\<forall>row \<in> set (rev ?sel). JSON_parse (row_raw row) \<noteq> None"
    by simp
  show ?thesis
    unfolding listRecordsForCollection_def fwd bwd res_map_the [OF ok] res_map_the [OF ok']
    by (simp add: rev_map)
qed

text \<open>
  C2, as stated, fails in its last part: the limit cuts the ordered rows, so with a
  limit below the number of records the descending list holds the greatest keys and
  the ascending list the least. With the keys \<open>a\<close>, \<open>b\<close>, \<open>c\<close> and the limit 2, the
  ascending list is \<open>a\<close>, \<open>b\<close> and the descending list is \<open>c\<close>, \<open>b\<close>.
\<close>

theorem listRecordsForCollection_reverse_counterexample:
  "listRecordsForCollection demo_parse (demo_store demo_log [] []) ''did:a'' ''app.bsky.post''
       2 False None None
     = Inr [demo_out ''a'', demo_out ''b'']
   \<and> listRecordsForCollection demo_parse (demo_store demo_log [] []) ''did:a'' ''app.bsky.post''
       2 True None None
     = Inr [demo_out ''c'', demo_out ''b'']
   \<and> set [demo_out ''c'', demo_out ''b''] \<noteq> set [demo_out ''a'', demo_out ''b'']"
  by code_simp

text \<open>
  C2, amended: let the records of one collection of one identity have the pairwise
  distinct keys \<open>ks\<close>, in ascending order, and payloads that can be decoded. Then
  \<open>listRecordsForCollection\<close> returns the projection of rows of that collection whose
  keys are the first \<open>m\<close> of the keys within the bounds, ascending, or descending when
  \<open>reverse\<close> is set. Without bounds and ascending these are the first \<open>m\<close> keys; with
  \<open>after\<close> only keys strictly greater than it, with \<open>before\<close> only keys strictly
  less. When \<open>m\<close> is at least the number of keys within the bounds, the descending
  list is the ascending list reversed, with the same records.
\<close>

theorem listRecordsForCollection_pagination:
  assumes "sort (map row_recordKey (rows_of this did collection)) = ks"
    and "distinct ks"
    and "\<forall>row \<in> set (rows_of this did collection). JSON_parse (row_raw row) \<noteq> None"
  shows "(\<exists>rows res.
            listRecordsForCollection JSON_parse this did collection m reverse
                before_key after_key = Inr res
            \<and> projects JSON_parse rows res
            \<and> set rows \<subseteq> set (rows_of this did collection)
            \<and> map row_recordKey rows
                = take m ((if reverse then rev else id)
                            (filter (in_bounds before_key after_key) ks)))
         \<and> (\<exists>rows res.
            listRecordsForCollection JSON_parse this did collection m False None None = Inr res
            \<and> projects JSON_parse rows res
            \<and> set rows \<subseteq> set (rows_of this did collection)
            \<and> map row_recordKey rows = take m ks)
         \<and> (\<exists>rows res.
            listRecordsForCollection JSON_parse this did collection m False None (Some a)
              = Inr res
            \<and> projects JSON_parse rows res
            \<and> set rows \<subseteq> set (rows_of this did collection)
            \<and> map row_recordKey rows = take m (filter (\<lambda>k. a < k) ks))
         \<and> (\<exists>rows res.
            listRecordsForCollection JSON_parse this did collection m False (Some b) None
              = Inr res
            \<and> projects JSON_parse rows res
            \<and> set rows \<subseteq> set (rows_of this did collection)
            \<and> map row_recordKey rows = take m (filter (\<lambda>k. k < b) ks))
         \<and> (length (filter (in_bounds before_key after_key) ks) \<le> m
            \<longrightarrow> listRecordsForCollection JSON_parse this did collection m True
                    before_key after_key
                = map_sum id rev
                    (listRecordsForCollection JSON_parse this did collection m False
                       before_key after_key))"
proof (intro conjI impI)
  show "\<exists>rows res.
            listRecordsForCollection JSON_parse this did collection m reverse
                before_key after_key = Inr res
            \<and> projects JSON_parse rows res
            \<and> set rows \<subseteq> set (rows_of this did collection)
            \<and> map row_recordKey rows
                = take m ((if reverse then rev else id)
                            (filter (in_bounds before_key after_key) ks))"
    using listRecordsForCollection_keys [OF assms(3), of m reverse before_key after_key]
    unfolding assms(1) .
next
  have "filter (in_bounds None None) ks = ks"
    by (induction ks) (simp_all add: in_bounds_def)
  with listRecordsForCollection_keys [OF assms(3), of m False None None]
  show "\<exists>rows res.
            listRecordsForCollection JSON_parse this did collection m False None None = Inr res
            \<and> projects JSON_parse rows res
            \<and> set rows \<subseteq> set (rows_of this did collection)
            \<and> map row_recordKey rows = take m ks"
    unfolding assms(1) by simp
next
  have "filter (in_bounds None (Some a)) ks = filter (\<lambda>k. a < k) ks"
    by (induction ks) (simp_all add: in_bounds_def)
  with listRecordsForCollection_keys [OF assms(3), of m False None "Some a"]
  show "\<exists>rows res.
            listRecordsForCollection JSON_parse this did collection m False None (Some a)
              = Inr res
            \<and> projects JSON_parse rows res
            \<and> set rows \<subseteq> set (rows_of this did collection)
            \<and> map row_recordKey rows = take m (filter (\<lambda>k. a < k) ks)"
    unfolding assms(1) by simp
next
  have "filter (in_bounds (Some b) None) ks = filter (\<lambda>k. k < b) ks"
    by (induction ks) (simp_all add: in_bounds_def)
  with listRecordsForCollection_keys [OF assms(3), of m False "Some b" None]
  show "\<exists>rows res.
            listRecordsForCollection JSON_parse this did collection m False (Some b) None
              = Inr res
            \<and> projects JSON_parse rows res
            \<and> set rows \<subseteq> set (rows_of this did collection)
            \<and> map row_recordKey rows = take m (filter (\<lambda>k. k < b) ks)"
    unfolding assms(1) by simp
next
  assume "length (filter (in_bounds before_key after_key) ks) \<le> m"
  then have "length (filter (in_bounds before_key after_key)
                       (sort (map row_recordKey (rows_of this did collection)))) \<le> m"
    unfolding assms(1) .
  with assms(3)
  show "listRecordsForCollection JSON_parse this did collection m True before_key after_key
          = map_sum id rev
              (listRecordsForCollection JSON_parse this did collection m False
                 before_key after_key)"
    by (rule listRecordsForCollection_reverse)
qed

theorem listRecordsForCollection_pagination_witness:
  "sort (map row_recordKey (rows_of (demo_store demo_log [] []) ''did:a'' ''app.bsky.post''))
     = [''a'', ''b'', ''c'']
   \<and> distinct [''a'', ''b'', ''c'']
   \<and> listRecordsForCollection demo_parse (demo_store demo_log [] []) ''did:a'' ''app.bsky.post''
        2 False None None
       = Inr [demo_out ''a'', demo_out ''b'']
   \<and> listRecordsForCollection demo_parse (demo_store demo_log [] []) ''did:a'' ''app.bsky.post''
        2 False None (Some ''a'')
       = Inr [demo_out ''b'', demo_out ''c'']
   \<and> listRecordsForCollection demo_parse (demo_store demo_log [] []) ''did:a'' ''app.bsky.post''
        2 False (Some ''c'') None
       = Inr [demo_out ''a'', demo_out ''b'']
   \<and> listRecordsForCollection demo_parse (demo_store demo_log [] []) ''did:a'' ''app.bsky.post''
        3 False None None
       = Inr [demo_out ''a'', demo_out ''b'', demo_out ''c'']
   \<and> listRecordsForCollection demo_parse (demo_store demo_log [] []) ''did:a'' ''app.bsky.post''
        3 True None None
       = Inr [demo_out ''c'', demo_out ''b'', demo_out ''a'']"
proof -
  let ?s = "demo_store demo_log [] []"
  have h1: "sort (map row_recordKey (rows_of ?s ''did:a'' ''app.bsky.post''))
              = [''a'', ''b'', ''c'']"
    by code_simp
  have h2: "distinct [''a'', ''b'', ''c'']"
    by simp
  have h3: "\<forall>row \<in> set (rows_of ?s ''did:a'' ''app.bsky.post'').
              demo_parse (row_raw row) \<noteq> None"
    by code_simp
  have n: "length (filter (in_bounds None None) [''a'', ''b'', ''c'']) \<le> 3"
    by (simp add: in_bounds_def)
  have fwd: "listRecordsForCollection demo_parse ?s ''did:a'' ''app.bsky.post'' 3 False None None
               = Inr [demo_out ''a'', demo_out ''b'', demo_out ''c'']"
    by code_simp
  from listRecordsForCollection_pagination [OF h1 h2 h3, of 3 True None None] n
  have "listRecordsForCollection demo_parse ?s ''did:a'' ''app.bsky.post'' 3 True None None
          = map_sum id rev
              (listRecordsForCollection demo_parse ?s ''did:a'' ''app.bsky.post'' 3 False
                 None None)"
    by blast
  with fwd have bwd: "listRecordsForCollection demo_parse ?s ''did:a'' ''app.bsky.post'' 3 True
                        None None
                      = Inr [demo_out ''c'', demo_out ''b'', demo_out ''a'']"
    by simp
  have p1: "listRecordsForCollection demo_parse ?s ''did:a'' ''app.bsky.post'' 2 False None None
              = Inr [demo_out ''a'', demo_out ''b'']"
    by code_simp
  have p2: "listRecordsForCollection demo_parse ?s ''did:a'' ''app.bsky.post'' 2 False None
              (Some ''a'')
              = Inr [demo_out ''b'', demo_out ''c'']"
    by code_simp
  have p3: "listRecordsForCollection demo_parse ?s ''did:a'' ''app.bsky.post'' 2 False
              (Some ''c'') None
              = Inr [demo_out ''a'', demo_out ''b'']"
    by code_simp
  from h1 h2 p1 p2 p3 fwd bwd show ?thesis
    by blast
qed

end
